theory Spec2Isabelle
  imports Main "HOL-Library.Monad_Syntax"
begin

section \<open>The formatting configuration of \<^verbatim>\<open>.prettierrc.mjs\<close>\<close>

text \<open>
  The only executable file of the repository is \<^verbatim>\<open>src/.prettierrc.mjs\<close>:
  \<^verbatim>\<open>
  /** @type {import("prettier").Config} */
  const config = {
    semi: true,
    singleQuote: false,
    trailingComma: "es5",
    tabWidth: 2,
    printWidth: 100,
    arrowParens: "always",
    endOfLine: "lf",
    plugins: [],
  };

  export default config;
  \<close>
  It is an ES module of two statements: a \<^verbatim>\<open>const\<close> binding initialised with an
  object literal, and the default export of that binding.
\<close>

subsection \<open>JavaScript values\<close>

text \<open>
  The values an object literal of the source can hold. The two numeric literals of the
  source (\<^verbatim>\<open>2\<close> and \<^verbatim>\<open>100\<close>) are integer literals, so numbers carry an \<open>int\<close>.
  An object is the list of its own properties in creation order, with distinct keys.
\<close>

datatype js_value =
    JSUndefined
  | JSNull
  | JSBoolean bool
  | JSNumber int
  | JSString string
  | JSArray "js_value list"
  | JSObject "(string \<times> js_value) list"

type_synonym js_props = "(string \<times> js_value) list"

text \<open>
  Defining a data property: an existing key keeps its position and takes the new
  value, a new key goes to the end.
\<close>

fun define_prop :: "js_props \<Rightarrow> string \<Rightarrow> js_value \<Rightarrow> js_props" where
  "define_prop [] k v = [(k, v)]"
| "define_prop ((k', v') # ps) k v =
     (if k' = k then (k, v) # ps else (k', v') # define_prop ps k v)"

text \<open>
  An object literal \<^verbatim>\<open>{k1: v1, ..., kn: vn}\<close> defines its properties from left to
  right on a fresh object.
\<close>

definition object_literal :: "js_props \<Rightarrow> js_value" where
  "object_literal kvs = JSObject (foldl (\<lambda>ps (k, v). define_prop ps k v) [] kvs)"

text \<open>
  Reading \<^verbatim>\<open>o.k\<close>: the value of the own property, \<^verbatim>\<open>undefined\<close> when there is none.
  Prototype properties are not modelled; the source reads none.
\<close>

fun get_prop :: "js_value \<Rightarrow> string \<Rightarrow> js_value" where
  "get_prop (JSObject ps) k = (case map_of ps k of Some v \<Rightarrow> v | None \<Rightarrow> JSUndefined)"
| "get_prop _ k = JSUndefined"

text \<open>\<^verbatim>\<open>Object.hasOwn(o, k)\<close> and \<^verbatim>\<open>Object.keys(o)\<close>.\<close>

fun has_own :: "js_value \<Rightarrow> string \<Rightarrow> bool" where
  "has_own (JSObject ps) k = (map_of ps k \<noteq> None)"
| "has_own _ k = False"

fun own_keys :: "js_value \<Rightarrow> string list" where
  "own_keys (JSObject ps) = map fst ps"
| "own_keys _ = []"

text \<open>
  The assignment \<^verbatim>\<open>o.k = v\<close> in module (strict) code: it defines or overwrites the
  property of an object; on anything else it raises, which is \<open>None\<close> here.
\<close>

fun set_prop :: "js_value \<Rightarrow> string \<Rightarrow> js_value \<Rightarrow> js_value option" where
  "set_prop (JSObject ps) k v = Some (JSObject (define_prop ps k v))"
| "set_prop _ k v = None"

subsection \<open>The module\<close>

text \<open>Lines 2 to 11: the object literal bound to \<^verbatim>\<open>config\<close>.\<close>

definition config :: js_value where
  "config = object_literal
     [(''semi'', JSBoolean True),
      (''singleQuote'', JSBoolean False),
      (''trailingComma'', JSString ''es5''),
      (''tabWidth'', JSNumber 2),
      (''printWidth'', JSNumber 100),
      (''arrowParens'', JSString ''always''),
      (''endOfLine'', JSString ''lf''),
      (''plugins'', JSArray [])]"

text \<open>
  The state of the module: whether its body has run, the binding \<^verbatim>\<open>config\<close> of its
  scope and its default export. A binding that is not initialised is \<open>None\<close>; reading
  one is an error of the program. The record is extensible: whatever else the process
  holds is the extension \<open>more\<close>, which the statements below carry along.
\<close>

datatype module_status = Unevaluated | Evaluated

record module_state =
  status :: module_status
  config_binding :: "js_value option"
  default_export :: "js_value option"

text \<open>
  A fresh process: the module has not run, and the rest of the process (environment
  variables, files, other modules, the number of calls so far) is any \<open>env\<close>.
\<close>

definition initial_state :: "'a \<Rightarrow> 'a module_state_scheme" where
  "initial_state env =
     \<lparr>status = Unevaluated, config_binding = None, default_export = None, \<dots> = env\<rparr>"

text \<open>\<^verbatim>\<open>const config = { ... };\<close>\<close>

definition const_config :: "'a module_state_scheme \<Rightarrow> 'a module_state_scheme" where
  "const_config st = st\<lparr>config_binding := Some config\<rparr>"

text \<open>\<^verbatim>\<open>export default config;\<close>\<close>

definition export_default :: "'a module_state_scheme \<Rightarrow> 'a module_state_scheme" where
  "export_default st = st\<lparr>default_export := config_binding st\<rparr>"

definition module_body :: "'a module_state_scheme \<Rightarrow> 'a module_state_scheme" where
  "module_body st = export_default (const_config st)"

text \<open>A module body runs at most once; a module that has run is left as it is.\<close>

definition evaluate :: "'a module_state_scheme \<Rightarrow> 'a module_state_scheme" where
  "evaluate st =
     (if status st = Evaluated then st else (module_body st)\<lparr>status := Evaluated\<rparr>)"

text \<open>
  The loader: \<^verbatim>\<open>import config from "./.prettierrc.mjs"\<close>. It takes nothing but the
  module; it makes sure the module has run and reads the default export. The result is
  \<open>None\<close> when the export is not initialised.
\<close>

definition load ::
  "'a module_state_scheme \<Rightarrow> js_value option \<times> 'a module_state_scheme" where
  "load st = (let st' = evaluate st in (default_export st', st'))"

text \<open>
  The module state after \<open>n\<close> calls of the loader in a fresh process with
  environment \<open>env\<close>, and the value the next call returns.
\<close>

primrec state_after :: "'a \<Rightarrow> nat \<Rightarrow> 'a module_state_scheme" where
  "state_after env 0 = initial_state env"
| "state_after env (Suc n) = snd (load (state_after env n))"

definition nth_result :: "'a \<Rightarrow> nat \<Rightarrow> js_value option" where
  "nth_result env n = fst (load (state_after env n))"

subsection \<open>The module in a store\<close>

text \<open>
  The value model above says what a load returns when only the module and the loader
  run. In JavaScript the object literal allocates one object, the binding and the
  default export hold a reference to it, and every importer gets that same reference;
  the source never freezes the object. The store makes the reference explicit. The
  array of \<^verbatim>\<open>plugins\<close> is kept inside the cell of the object that owns it: the
  literal creates it, and the only path to it is that property.
\<close>

type_synonym ref = nat

record heap_state =
  store :: "ref \<Rightarrow> js_value option"
  next_ref :: ref
  phase :: module_status
  config_ref :: "ref option"
  export_ref :: "ref option"

text \<open>A fresh process with environment \<open>env\<close>: an empty store, the module not run.\<close>

definition initial_heap :: "'a \<Rightarrow> 'a heap_state_scheme" where
  "initial_heap env =
     \<lparr>store = (\<lambda>r. None), next_ref = 0, phase = Unevaluated, config_ref = None,
      export_ref = None, \<dots> = env\<rparr>"

text \<open>Evaluating an object literal allocates the next free cell.\<close>

definition alloc :: "js_value \<Rightarrow> 'a heap_state_scheme \<Rightarrow> ref \<times> 'a heap_state_scheme" where
  "alloc v st =
     (next_ref st, st\<lparr>store := (store st)(next_ref st \<mapsto> v), next_ref := Suc (next_ref st)\<rparr>)"

text \<open>\<^verbatim>\<open>const config = { ... };\<close> allocates the object and binds its reference.\<close>

definition const_config_ref :: "'a heap_state_scheme \<Rightarrow> 'a heap_state_scheme" where
  "const_config_ref st = (case alloc config st of (r, st') \<Rightarrow> st'\<lparr>config_ref := Some r\<rparr>)"

text \<open>\<^verbatim>\<open>export default config;\<close> exports the reference the binding holds.\<close>

definition export_default_ref :: "'a heap_state_scheme \<Rightarrow> 'a heap_state_scheme" where
  "export_default_ref st = st\<lparr>export_ref := config_ref st\<rparr>"

definition module_body_ref :: "'a heap_state_scheme \<Rightarrow> 'a heap_state_scheme" where
  "module_body_ref st = export_default_ref (const_config_ref st)"

text \<open>The module body runs at most once.\<close>

definition evaluate_ref :: "'a heap_state_scheme \<Rightarrow> 'a heap_state_scheme" where
  "evaluate_ref st =
     (if phase st = Evaluated then st else (module_body_ref st)\<lparr>phase := Evaluated\<rparr>)"

text \<open>
  The loader with references: it makes sure the module has run and returns the
  reference of the default export. \<open>observe\<close> is a load followed by the read of the
  object through the reference, which is what a consumer sees.
\<close>

definition import_default ::
  "'a heap_state_scheme \<Rightarrow> ref option \<times> 'a heap_state_scheme" where
  "import_default st = (let st' = evaluate_ref st in (export_ref st', st'))"

definition observe :: "'a heap_state_scheme \<Rightarrow> js_value option \<times> 'a heap_state_scheme" where
  "observe st =
     (case import_default st of
        (None, st') \<Rightarrow> (None, st')
      | (Some r, st') \<Rightarrow> (store st' r, st'))"

text \<open>
  What a consumer can do with the reference, the object not being frozen: the
  assignment \<^verbatim>\<open>config.k = v\<close> and the call \<^verbatim>\<open>config.plugins.push(x)\<close>. Both
  raise (\<open>None\<close>) on a dangling reference, the second also when \<^verbatim>\<open>plugins\<close> is not
  an array.
\<close>

definition assign ::
  "ref \<Rightarrow> string \<Rightarrow> js_value \<Rightarrow> 'a heap_state_scheme \<Rightarrow> 'a heap_state_scheme option" where
  "assign r k v st =
     (case store st r of
        None \<Rightarrow> None
      | Some c \<Rightarrow>
          (case set_prop c k v of
             None \<Rightarrow> None
           | Some c' \<Rightarrow> Some (st\<lparr>store := (store st)(r \<mapsto> c')\<rparr>)))"

definition plugins_push ::
  "ref \<Rightarrow> js_value \<Rightarrow> 'a heap_state_scheme \<Rightarrow> 'a heap_state_scheme option" where
  "plugins_push r x st =
     (case store st r of
        None \<Rightarrow> None
      | Some c \<Rightarrow>
          (case get_prop c ''plugins'' of
             JSArray ps \<Rightarrow> assign r ''plugins'' (JSArray (ps @ [x])) st
           | _ \<Rightarrow> None))"

text \<open>
  The store state after \<open>n\<close> loads and nothing else in a fresh process, and what the
  next load observes.
\<close>

primrec heap_after :: "'a \<Rightarrow> nat \<Rightarrow> 'a heap_state_scheme" where
  "heap_after env 0 = initial_heap env"
| "heap_after env (Suc n) = snd (import_default (heap_after env n))"

definition nth_observed :: "'a \<Rightarrow> nat \<Rightarrow> js_value option" where
  "nth_observed env n = fst (observe (heap_after env n))"

subsection \<open>The data model of the specification\<close>

text \<open>
  The record \<open>FormatPreferences\<close> of the specification (section 3), with its enumerated
  types, and the fixed value its \<open>load()\<close> returns (section 4.1). These follow the
  specification's words; they are compared with the module below.
\<close>

datatype quote_style = QuoteSingle | QuoteDouble

datatype trailing_comma = TrailingNone | TrailingEs5 | TrailingAll

datatype arrow_parens_policy = ParensAlways | ParensAvoid

datatype line_ending = EndLf | EndCrlf | EndCr | EndAuto

record FormatPreferences =
  statementTerminator :: bool
  quoteStyle :: quote_style
  trailingComma :: trailing_comma
  indentWidth :: int
  maxLineWidth :: int
  arrowParensPolicy :: arrow_parens_policy
  lineEnding :: line_ending
  plugins :: "string list"

definition spec_load :: FormatPreferences where
  "spec_load =
     \<lparr>statementTerminator = True,
      quoteStyle = QuoteDouble,
      trailingComma = TrailingEs5,
      indentWidth = 2,
      maxLineWidth = 100,
      arrowParensPolicy = ParensAlways,
      lineEnding = EndLf,
      plugins = []\<rparr>"

text \<open>The domains of the enumerated options, as the strings the code writes.\<close>

definition trailingComma_values :: "string list" where
  "trailingComma_values = [''none'', ''es5'', ''all'']"

definition arrowParens_values :: "string list" where
  "arrowParens_values = [''always'', ''avoid'']"

definition endOfLine_values :: "string list" where
  "endOfLine_values = [''lf'', ''crlf'', ''cr'', ''auto'']"

text \<open>
  Reading a JavaScript value as a field of the specification's record. Each reader
  refuses (\<open>None\<close>) a value of the wrong type or outside the field's domain, so an
  absent property, which reads as \<^verbatim>\<open>undefined\<close>, is refused too.
\<close>

fun as_boolean :: "js_value \<Rightarrow> bool option" where
  "as_boolean (JSBoolean b) = Some b"
| "as_boolean _ = None"

text \<open>\<^verbatim>\<open>singleQuote\<close> is the negated polarity of the specification's \<open>quoteStyle = double\<close>.\<close>

fun as_quote_style :: "js_value \<Rightarrow> quote_style option" where
  "as_quote_style (JSBoolean b) = Some (if b then QuoteSingle else QuoteDouble)"
| "as_quote_style _ = None"

fun as_trailing_comma :: "js_value \<Rightarrow> trailing_comma option" where
  "as_trailing_comma (JSString s) =
     (if s = ''none'' then Some TrailingNone
      else if s = ''es5'' then Some TrailingEs5
      else if s = ''all'' then Some TrailingAll
      else None)"
| "as_trailing_comma _ = None"

fun as_positive_integer :: "js_value \<Rightarrow> int option" where
  "as_positive_integer (JSNumber n) = (if 0 < n then Some n else None)"
| "as_positive_integer _ = None"

fun as_arrow_parens :: "js_value \<Rightarrow> arrow_parens_policy option" where
  "as_arrow_parens (JSString s) =
     (if s = ''always'' then Some ParensAlways
      else if s = ''avoid'' then Some ParensAvoid
      else None)"
| "as_arrow_parens _ = None"

fun as_line_ending :: "js_value \<Rightarrow> line_ending option" where
  "as_line_ending (JSString s) =
     (if s = ''lf'' then Some EndLf
      else if s = ''crlf'' then Some EndCrlf
      else if s = ''cr'' then Some EndCr
      else if s = ''auto'' then Some EndAuto
      else None)"
| "as_line_ending _ = None"

fun as_plugin_id :: "js_value \<Rightarrow> string option" where
  "as_plugin_id (JSString s) = Some s"
| "as_plugin_id _ = None"

fun as_plugins :: "js_value \<Rightarrow> string list option" where
  "as_plugins (JSArray vs) = those (map as_plugin_id vs)"
| "as_plugins _ = None"

text \<open>
  The configuration object read as the specification's record: each field of the
  record is read from the property that carries it in the code.
\<close>

definition to_FormatPreferences :: "js_value \<Rightarrow> FormatPreferences option" where
  "to_FormatPreferences c =
     do {
       st \<leftarrow> as_boolean (get_prop c ''semi'');
       qs \<leftarrow> as_quote_style (get_prop c ''singleQuote'');
       tc \<leftarrow> as_trailing_comma (get_prop c ''trailingComma'');
       iw \<leftarrow> as_positive_integer (get_prop c ''tabWidth'');
       mw \<leftarrow> as_positive_integer (get_prop c ''printWidth'');
       ap \<leftarrow> as_arrow_parens (get_prop c ''arrowParens'');
       le \<leftarrow> as_line_ending (get_prop c ''endOfLine'');
       pl \<leftarrow> as_plugins (get_prop c ''plugins'');
       Some \<lparr>statementTerminator = st,
             quoteStyle = qs,
             trailingComma = tc,
             indentWidth = iw,
             maxLineWidth = mw,
             arrowParensPolicy = ap,
             lineEnding = le,
             plugins = pl\<rparr>
     }"

section \<open>Properties\<close>

subsection \<open>The object the literal builds\<close>

lemma config_object:
  "config = JSObject
     [(''semi'', JSBoolean True),
      (''singleQuote'', JSBoolean False),
      (''trailingComma'', JSString ''es5''),
      (''tabWidth'', JSNumber 2),
      (''printWidth'', JSNumber 100),
      (''arrowParens'', JSString ''always''),
      (''endOfLine'', JSString ''lf''),
      (''plugins'', JSArray [])]"
  by (simp add: config_def object_literal_def)

subsection \<open>The module state under the loader\<close>

lemma evaluate_initial:
  "evaluate (initial_state env) =
     \<lparr>status = Evaluated, config_binding = Some config, default_export = Some config,
      \<dots> = env\<rparr>"
  by (simp add: evaluate_def initial_state_def module_body_def export_default_def
      const_config_def)

lemma evaluate_idem: "evaluate (evaluate st) = evaluate st"
  by (simp add: evaluate_def)

lemma load_eq: "load st = (default_export (evaluate st), evaluate st)"
  by (simp add: load_def Let_def)

lemma state_after_Suc: "state_after env (Suc n) = evaluate (initial_state env)"
proof (induction n)
  case 0
  show ?case by (simp add: load_eq)
next
  case (Suc n)
  have "state_after env (Suc (Suc n)) = evaluate (state_after env (Suc n))"
    by (simp add: load_eq)
  also have "\<dots> = evaluate (evaluate (initial_state env))"
    by (simp only: Suc.IH)
  also have "\<dots> = evaluate (initial_state env)"
    by (rule evaluate_idem)
  finally show ?case .
qed

lemma evaluate_state_after: "evaluate (state_after env n) = evaluate (initial_state env)"
proof (cases n)
  case 0
  then show ?thesis by simp
next
  case (Suc m)
  show ?thesis
    by (simp only: Suc state_after_Suc evaluate_idem)
qed

lemma nth_result_config: "nth_result env n = Some config"
  by (simp add: nth_result_def load_eq evaluate_state_after evaluate_initial)

lemma to_FormatPreferences_config: "to_FormatPreferences config = Some spec_load"
  by (simp add: to_FormatPreferences_def config_object spec_load_def)

subsection \<open>The store under the loader\<close>

lemma import_default_eq: "import_default st = (export_ref (evaluate_ref st), evaluate_ref st)"
  by (simp add: import_default_def Let_def)

lemma evaluate_ref_initial:
  "evaluate_ref (initial_heap env) =
     \<lparr>store = [0 \<mapsto> config], next_ref = Suc 0, phase = Evaluated, config_ref = Some 0,
      export_ref = Some 0, \<dots> = env\<rparr>"
  by (simp add: evaluate_ref_def initial_heap_def module_body_ref_def export_default_ref_def
      const_config_ref_def alloc_def)

lemma evaluate_ref_evaluated: "phase st = Evaluated \<Longrightarrow> evaluate_ref st = st"
  by (simp add: evaluate_ref_def)

lemma evaluate_ref_idem: "evaluate_ref (evaluate_ref st) = evaluate_ref st"
  by (simp add: evaluate_ref_def)

lemma evaluate_ref_more: "heap_state.more (evaluate_ref st) = heap_state.more st"
  by (simp add: evaluate_ref_def module_body_ref_def export_default_ref_def
      const_config_ref_def alloc_def)

lemma heap_after_Suc: "heap_after env (Suc n) = evaluate_ref (initial_heap env)"
proof (induction n)
  case 0
  show ?case by (simp add: import_default_eq)
next
  case (Suc n)
  have "heap_after env (Suc (Suc n)) = evaluate_ref (heap_after env (Suc n))"
    by (simp add: import_default_eq)
  also have "\<dots> = evaluate_ref (evaluate_ref (initial_heap env))"
    by (simp only: Suc.IH)
  also have "\<dots> = evaluate_ref (initial_heap env)"
    by (rule evaluate_ref_idem)
  finally show ?case .
qed

lemma evaluate_ref_heap_after:
  "evaluate_ref (heap_after env n) = evaluate_ref (initial_heap env)"
proof (cases n)
  case 0
  then show ?thesis by simp
next
  case (Suc m)
  show ?thesis
    by (simp only: Suc heap_after_Suc evaluate_ref_idem)
qed

lemma nth_observed_config: "nth_observed env n = Some config"
  by (simp add: nth_observed_def observe_def import_default_eq evaluate_ref_heap_after
      evaluate_ref_initial)

text \<open>
  With no write by a consumer, what a load observes through the store is what the
  value model returns.
\<close>

lemma nth_observed_nth_result: "nth_observed env n = nth_result env' m"
  by (simp add: nth_observed_config nth_result_config)

section \<open>The claims\<close>

text \<open>
  C1. The loader takes no input (nothing but the module itself; the result is the same
  for every environment \<open>env\<close> and every call number \<open>n\<close>) and returns exactly the
  object of the literal; read as the specification's record this is the fixed value
  statementTerminator = true, quoteStyle = double, trailingComma = es5,
  indentWidth = 2, maxLineWidth = 100, arrowParensPolicy = always, lineEnding = lf,
  plugins = the empty sequence.
\<close>

theorem load_returns_fixed_record:
  "nth_result env n = Some (JSObject
     [(''semi'', JSBoolean True),
      (''singleQuote'', JSBoolean False),
      (''trailingComma'', JSString ''es5''),
      (''tabWidth'', JSNumber 2),
      (''printWidth'', JSNumber 100),
      (''arrowParens'', JSString ''always''),
      (''endOfLine'', JSString ''lf''),
      (''plugins'', JSArray [])]) \<and>
   Option.bind (nth_result env n) to_FormatPreferences = Some spec_load"
proof -
  have "nth_result env n = Some config"
    by (rule nth_result_config)
  then show ?thesis
    by (simp add: to_FormatPreferences_config) (simp add: config_object)
qed

text \<open>
  C2. Any two calls of the loader return equal values, whatever the call numbers \<open>i\<close>
  and \<open>j\<close> and whatever the environments \<open>env\<close> and \<open>env'\<close> of the processes they run
  in; equal values are equal property by property.
\<close>

theorem load_deterministic:
  "nth_result env i = nth_result env' j \<and>
   map_option (\<lambda>c. get_prop c k) (nth_result env i) =
     map_option (\<lambda>c. get_prop c k) (nth_result env' j)"
  by (simp add: nth_result_config)

text \<open>
  C3. In the value the loader returns, \<^verbatim>\<open>tabWidth\<close> (the specification's indentWidth)
  and \<^verbatim>\<open>printWidth\<close> (its maxLineWidth) are numbers that are strictly positive
  integers.
\<close>

theorem widths_strictly_positive:
  "\<exists>c w p. nth_result env n = Some c \<and>
     get_prop c ''tabWidth'' = JSNumber w \<and> get_prop c ''printWidth'' = JSNumber p \<and>
     0 < w \<and> 0 < p"
  by (simp add: nth_result_config config_object)

text \<open>
  C4. Every call of the loader returns a value, never the error result: the read of
  the default export always finds it initialised, and the value read is a complete
  configuration of the specification's data model.
\<close>

theorem load_infallible:
  "\<exists>c fp. load (state_after env n) = (Some c, state_after env (Suc n)) \<and>
     to_FormatPreferences c = Some fp"
proof -
  have "fst (load (state_after env n)) = Some config"
    using nth_result_config [of env n] by (simp add: nth_result_def)
  then have "load (state_after env n) = (Some config, state_after env (Suc n))"
    by (simp add: prod_eq_iff)
  with to_FormatPreferences_config show ?thesis
    by blast
qed

text \<open>
  C5. The exported object has exactly eight own properties, the eight fields of the
  data model under the names the code gives them; each is present, each holds a value
  that is not \<^verbatim>\<open>undefined\<close>, and the object reads as a complete record of the
  specification.
\<close>

theorem config_has_exactly_eight_fields:
  "\<exists>c. nth_result env n = Some c \<and>
     own_keys c =
       [''semi'', ''singleQuote'', ''trailingComma'', ''tabWidth'', ''printWidth'',
        ''arrowParens'', ''endOfLine'', ''plugins''] \<and>
     length (own_keys c) = 8 \<and> distinct (own_keys c) \<and>
     map (has_own c) (own_keys c) = replicate 8 True \<and>
     map (get_prop c) (own_keys c) =
       [JSBoolean True, JSBoolean False, JSString ''es5'', JSNumber 2, JSNumber 100,
        JSString ''always'', JSString ''lf'', JSArray []] \<and>
     JSUndefined \<notin> set (map (get_prop c) (own_keys c)) \<and>
     to_FormatPreferences c \<noteq> None"
proof -
  have "nth_result env n = Some config"
    by (rule nth_result_config)
  then show ?thesis
    by (simp add: to_FormatPreferences_config) (simp add: config_object eval_nat_numeral)
qed

text \<open>
  C6. \<^verbatim>\<open>plugins\<close> is the empty array in the loaded configuration, and appending any
  identifier \<open>ident\<close> to it (\<^verbatim>\<open>config.plugins = [...config.plugins, ident]\<close>) changes
  the plugins to the one-element sequence and leaves the seven other properties and
  the set of properties as they were. Read as the specification's record, the result of
  appending a plugin name \<open>s\<close> is the fixed record with only its plugins changed.
\<close>

theorem plugins_append_frame:
  "\<exists>c ps c' c''. nth_result env n = Some c \<and>
     get_prop c ''plugins'' = JSArray ps \<and> ps = [] \<and>
     set_prop c ''plugins'' (JSArray (ps @ [ident])) = Some c' \<and>
     get_prop c' ''plugins'' = JSArray [ident] \<and>
     get_prop c' ''semi'' = get_prop c ''semi'' \<and>
     get_prop c' ''singleQuote'' = get_prop c ''singleQuote'' \<and>
     get_prop c' ''trailingComma'' = get_prop c ''trailingComma'' \<and>
     get_prop c' ''tabWidth'' = get_prop c ''tabWidth'' \<and>
     get_prop c' ''printWidth'' = get_prop c ''printWidth'' \<and>
     get_prop c' ''arrowParens'' = get_prop c ''arrowParens'' \<and>
     get_prop c' ''endOfLine'' = get_prop c ''endOfLine'' \<and>
     own_keys c' = own_keys c \<and>
     set_prop c ''plugins'' (JSArray (ps @ [JSString s])) = Some c'' \<and>
     to_FormatPreferences c'' = Some (spec_load\<lparr>plugins := [s]\<rparr>)"
proof -
  have "nth_result env n = Some config"
    by (rule nth_result_config)
  then show ?thesis
    by simp (simp add: config_object to_FormatPreferences_def spec_load_def)
qed

text \<open>
  A consumer's write is seen by later loads. In a fresh process the first load
  returns reference 0, whose object is the one the literal created. After a consumer
  calls \<^verbatim>\<open>config.plugins.push("x")\<close> through that reference, the next load returns
  the same reference, and the object observed has \<^verbatim>\<open>plugins = ["x"]\<close>: it is not
  the value at creation. So the exported value can be mutated after its creation, and a
  consumer can observe a value other than the created one.
\<close>

theorem later_load_sees_consumer_write:
  "(let st1 = snd (import_default (initial_heap ())) in
      import_default (initial_heap ()) = (Some 0, st1) \<and>
      store st1 0 = Some config \<and>
      (case plugins_push 0 (JSString ''x'') st1 of
         None \<Rightarrow> False
       | Some st2 \<Rightarrow>
           import_default st2 = (Some 0, st2) \<and>
           fst (observe st2) =
             Some (JSObject
               [(''semi'', JSBoolean True),
                (''singleQuote'', JSBoolean False),
                (''trailingComma'', JSString ''es5''),
                (''tabWidth'', JSNumber 2),
                (''printWidth'', JSNumber 100),
                (''arrowParens'', JSString ''always''),
                (''endOfLine'', JSString ''lf''),
                (''plugins'', JSArray [JSString ''x''])]) \<and>
           fst (observe st2) \<noteq> Some config))"
proof -
  let ?st1 = "\<lparr>store = [0 \<mapsto> config], next_ref = Suc 0, phase = Evaluated,
    config_ref = Some 0, export_ref = Some 0\<rparr>"
  let ?c' = "JSObject
     [(''semi'', JSBoolean True),
      (''singleQuote'', JSBoolean False),
      (''trailingComma'', JSString ''es5''),
      (''tabWidth'', JSNumber 2),
      (''printWidth'', JSNumber 100),
      (''arrowParens'', JSString ''always''),
      (''endOfLine'', JSString ''lf''),
      (''plugins'', JSArray [JSString ''x''])]"
  let ?st2 = "\<lparr>store = [0 \<mapsto> ?c'], next_ref = Suc 0, phase = Evaluated,
    config_ref = Some 0, export_ref = Some 0\<rparr>"
  have first: "import_default (initial_heap ()) = (Some 0, ?st1)"
    by (simp add: import_default_eq evaluate_ref_initial)
  have push: "plugins_push 0 (JSString ''x'') ?st1 = Some ?st2"
    by (simp add: plugins_push_def assign_def config_object)
  have second: "import_default ?st2 = (Some 0, ?st2)"
    by (simp add: import_default_eq evaluate_ref_def)
  have seen: "fst (observe ?st2) = Some ?c'"
    by (simp add: observe_def second)
  have differs: "Some ?c' \<noteq> Some config"
    by (simp add: config_object)
  show ?thesis
    by (simp only: first snd_conv Let_def push option.case second seen differs)
      simp
qed

text \<open>
  C8, as amended. The first load of a process runs the module body, which allocates
  the one object of the literal at reference 0, binds it and exports it, and changes
  nothing else. After any number of loads the state is still the state the first load
  left: every further load returns reference 0 and changes nothing, and with no write
  by a consumer every load observes the value as created. No load touches the rest of
  the process (the extension \<open>more\<close> of any state \<open>st\<close>). In any state where the module
  has run, whatever a consumer has written into the store since, a load returns the
  exported reference and leaves the whole state as it is, and what is observed is the
  object the store then holds at that reference.
\<close>

theorem load_creates_once_then_only_reads:
  "import_default (initial_heap env) =
     (Some 0,
      \<lparr>store = [0 \<mapsto> config], next_ref = Suc 0, phase = Evaluated, config_ref = Some 0,
       export_ref = Some 0, \<dots> = env\<rparr>) \<and>
   heap_after env (Suc n) = snd (import_default (initial_heap env)) \<and>
   import_default (heap_after env (Suc n)) = (Some 0, heap_after env (Suc n)) \<and>
   nth_observed env n = Some config \<and>
   heap_state.more (snd (import_default st)) = heap_state.more st \<and>
   (phase st = Evaluated \<longrightarrow> import_default st = (export_ref st, st)) \<and>
   (phase st = Evaluated \<longrightarrow> observe st = (Option.bind (export_ref st) (store st), st))"
proof -
  let ?created = "evaluate_ref (initial_heap env)"
  have first: "import_default (initial_heap env) =
     (Some 0,
      \<lparr>store = [0 \<mapsto> config], next_ref = Suc 0, phase = Evaluated, config_ref = Some 0,
       export_ref = Some 0, \<dots> = env\<rparr>)"
    by (simp add: import_default_eq evaluate_ref_initial)
  have st: "heap_after env (Suc n) = snd (import_default (initial_heap env))"
    by (simp only: heap_after_Suc import_default_eq snd_conv)
  have again: "import_default (heap_after env (Suc n)) = (Some 0, heap_after env (Suc n))"
    by (simp only: heap_after_Suc import_default_eq evaluate_ref_idem)
      (simp add: evaluate_ref_initial)
  have obs: "nth_observed env n = Some config"
    by (rule nth_observed_config)
  have more: "heap_state.more (snd (import_default st)) = heap_state.more st"
    by (simp add: import_default_eq evaluate_ref_more)
  have reads: "phase st = Evaluated \<longrightarrow> import_default st = (export_ref st, st)"
    by (simp add: import_default_eq evaluate_ref_evaluated)
  have reads': "phase st = Evaluated \<longrightarrow> observe st = (Option.bind (export_ref st) (store st), st)"
    by (auto simp add: observe_def import_default_eq evaluate_ref_evaluated split: option.splits)
  from first st again obs more reads reads' show ?thesis
    by blast
qed

text \<open>
  The amended statement used at the state a consumer's \<^verbatim>\<open>push("x")\<close> leaves: the
  module has run there, the load changes nothing and observes the written object.
\<close>

theorem load_creates_once_then_only_reads_witness:
  "(let st =
      \<lparr>store = [0 \<mapsto> JSObject
       [(''semi'', JSBoolean True),
        (''singleQuote'', JSBoolean False),
        (''trailingComma'', JSString ''es5''),
        (''tabWidth'', JSNumber 2),
        (''printWidth'', JSNumber 100),
        (''arrowParens'', JSString ''always''),
        (''endOfLine'', JSString ''lf''),
        (''plugins'', JSArray [JSString ''x''])]],
       next_ref = Suc 0, phase = Evaluated, config_ref = Some 0, export_ref = Some 0\<rparr>
    in plugins_push 0 (JSString ''x'') (snd (import_default (initial_heap ()))) = Some st \<and>
       phase st = Evaluated \<and>
       import_default st = (Some 0, st) \<and>
       observe st = (store st 0, st))"
proof -
  let ?st = "\<lparr>store = [0 \<mapsto> JSObject
       [(''semi'', JSBoolean True),
        (''singleQuote'', JSBoolean False),
        (''trailingComma'', JSString ''es5''),
        (''tabWidth'', JSNumber 2),
        (''printWidth'', JSNumber 100),
        (''arrowParens'', JSString ''always''),
        (''endOfLine'', JSString ''lf''),
        (''plugins'', JSArray [JSString ''x''])]],
    next_ref = Suc 0, phase = Evaluated, config_ref = Some 0, export_ref = Some 0\<rparr>"
  note amended = load_creates_once_then_only_reads [of "()" 0 ?st]
  have pushed: "plugins_push 0 (JSString ''x'') (snd (import_default (initial_heap ()))) = Some ?st"
    by (simp add: import_default_eq evaluate_ref_initial plugins_push_def assign_def
        config_object)
  have ph: "phase ?st = Evaluated"
    by simp
  have "phase ?st = Evaluated \<longrightarrow> import_default ?st = (export_ref ?st, ?st)"
    using amended by (elim conjE)
  then have ld: "import_default ?st = (export_ref ?st, ?st)"
    using ph by (rule mp)
  have "phase ?st = Evaluated \<longrightarrow>
      observe ?st = (Option.bind (export_ref ?st) (store ?st), ?st)"
    using amended by (elim conjE)
  then have ob: "observe ?st = (Option.bind (export_ref ?st) (store ?st), ?st)"
    using ph by (rule mp)
  have ld': "import_default ?st = (Some 0, ?st)"
    using ld by simp
  have ob': "observe ?st = (store ?st 0, ?st)"
    using ob by simp
  from pushed ph ld' ob' show ?thesis
    unfolding Let_def by (intro conjI)
qed

text \<open>
  C9. In the loaded configuration each option with an enumerated domain holds a value
  of that domain: \<^verbatim>\<open>trailingComma\<close> is \<^verbatim>\<open>"es5"\<close>, one of none, es5, all;
  \<^verbatim>\<open>arrowParens\<close> is \<^verbatim>\<open>"always"\<close>, one of always, avoid; \<^verbatim>\<open>endOfLine\<close> is
  \<^verbatim>\<open>"lf"\<close>, one of lf, crlf, cr, auto.
\<close>

theorem enum_fields_in_domain:
  "\<exists>c. nth_result env n = Some c \<and>
     get_prop c ''trailingComma'' = JSString ''es5'' \<and>
     ''es5'' \<in> set trailingComma_values \<and>
     get_prop c ''arrowParens'' = JSString ''always'' \<and>
     ''always'' \<in> set arrowParens_values \<and>
     get_prop c ''endOfLine'' = JSString ''lf'' \<and>
     ''lf'' \<in> set endOfLine_values"
proof -
  have "nth_result env n = Some config"
    by (rule nth_result_config)
  then show ?thesis
    by (simp add: trailingComma_values_def arrowParens_values_def endOfLine_values_def)
      (simp add: config_object)
qed

text \<open>
  C10. The code names the fields differently from the specification's data model and
  negates one of them. Statement termination is the property \<^verbatim>\<open>semi\<close>, which is
  \<^verbatim>\<open>true\<close>; quoteStyle = double is the property \<^verbatim>\<open>singleQuote\<close> with the value
  \<^verbatim>\<open>false\<close> (\<^verbatim>\<open>true\<close> would be single); indentWidth is \<^verbatim>\<open>tabWidth\<close>, maxLineWidth
  is \<^verbatim>\<open>printWidth\<close> and lineEnding is \<^verbatim>\<open>endOfLine\<close>. The object has no property
  under any of the specification's five names.
\<close>

theorem code_names_and_polarity:
  "\<exists>c fp. nth_result env n = Some c \<and> to_FormatPreferences c = Some fp \<and>
     get_prop c ''semi'' = JSBoolean (statementTerminator fp) \<and>
     statementTerminator fp = True \<and>
     get_prop c ''singleQuote'' = JSBoolean False \<and>
     quoteStyle fp = QuoteDouble \<and>
     as_quote_style (JSBoolean True) = Some QuoteSingle \<and>
     get_prop c ''tabWidth'' = JSNumber (indentWidth fp) \<and>
     get_prop c ''printWidth'' = JSNumber (maxLineWidth fp) \<and>
     get_prop c ''endOfLine'' = JSString ''lf'' \<and>
     lineEnding fp = EndLf \<and>
     \<not> has_own c ''statementTerminator'' \<and>
     \<not> has_own c ''quoteStyle'' \<and>
     \<not> has_own c ''indentWidth'' \<and>
     \<not> has_own c ''maxLineWidth'' \<and>
     \<not> has_own c ''lineEnding''"
proof -
  have "nth_result env n = Some config"
    by (rule nth_result_config)
  then show ?thesis
    by (simp add: to_FormatPreferences_config) (simp add: config_object spec_load_def)
qed

end
